theory Spec2Isabelle
  imports Main "HOL-Library.Word"
begin

section \<open>Identifiers, errors and native objects\<close>

text \<open>
  The program is \<^verbatim>\<open>pygrabber/dshow_graph.py\<close>: a Python binding that assembles a
  DirectShow filter graph through COM. The Python code is embedded as functions over an
  explicit state; each call into the operating system is a field of the record
  \<open>native\<close> below, a parameter of every operation, and returns either a result code
  (the \<open>COMError\<close> that comtypes raises) or a value.
\<close>

type_synonym hresult = int

datatype error =
    AssertionError
  | COMError hresult
  | ValueError
  | IndexError
  | KeyError
  | AttributeError
  | TypeError

datatype StateGraph = Stopped | Paused | Running

datatype RecordingFormat = AVI | ASF

datatype FilterType =
    video_input
  | audio_input
  | video_compressor
  | audio_compressor
  | sample_grabber
  | render
  | file_sink
  | muxer
  | smart_tee

text \<open>
  The identifier tables \<^verbatim>\<open>clsids\<close>, \<^verbatim>\<open>DeviceCategories\<close>, \<^verbatim>\<open>MediaSubtypes\<close>,
  \<^verbatim>\<open>MediaTypes\<close> and \<^verbatim>\<open>PinCategory\<close> live in \<^verbatim>\<open>dshow_ids.py\<close>; only their names
  are used here, one constructor per name the source mentions.
\<close>

datatype GUID =
    CLSID_SampleGrabber
  | CLSID_SmartTee
  | CLSID_NullRender
  | CLSID_VideoRendererDefault
  | CLSID_VideoMixingRenderer
  | DeviceCategories_VideoInputDevice
  | DeviceCategories_AudioInputDevice
  | DeviceCategories_VideoCompressor
  | DeviceCategories_AudioCompressor
  | MediaSubtypes_ASF
  | MediaSubtypes_AVI
  | MediaSubtypes_RGB24
  | MediaTypes_Video
  | PinCategory_Preview
  | PinCategory_Capture

datatype interface =
    IVideoWindow
  | ISampleGrabber
  | ISpecifyPropertyPages
  | IAMStreamConfig
  | IAMVideoControl

type_synonym IBASEFILTER = nat

type_synonym IMONIKER = nat

type_synonym IPROPERTYBAG = nat

text \<open>A pin is an interface pointer; \<open>QueryDirection\<close> is 0 for an input pin.\<close>

datatype IPIN = IPIN (pin_id: nat) (QueryDirection: nat)

datatype com_object = BaseFilter IBASEFILTER | Pin IPIN

definition PIN_OUT :: nat where
  "PIN_OUT = 1"

section \<open>The native filter graph\<close>

text \<open>
  What the binding has asked of the native graph so far, in call order: the filters
  handed to \<^verbatim>\<open>AddFilter\<close>, the pin pairs handed to \<^verbatim>\<open>Connect\<close> and the
  files handed to \<^verbatim>\<open>SetOutputFileName\<close>. Only calls that returned are recorded.
\<close>

record native_graph =
  added_filters :: "(IBASEFILTER \<times> string) list"
  connections :: "(IPIN option \<times> IPIN) list"
  output_files :: "(GUID \<times> string) list"

text \<open>
  The native interface methods the source calls. A method that comtypes wraps returns
  \<open>Inl hr\<close> (or \<open>Some hr\<close> when it has no value) where comtypes raises
  \<^verbatim>\<open>COMError\<close> with result code \<open>hr\<close>. \<open>CreateClassEnumerator\<close> returns
  \<open>Inr None\<close> for the NULL enumerator of a category without devices.
\<close>

record native =
  Connect :: "native_graph \<Rightarrow> IPIN option \<Rightarrow> IPIN \<Rightarrow> hresult option"
  EnumPins :: "native_graph \<Rightarrow> IBASEFILTER \<Rightarrow> hresult + IPIN list"
  FindPin :: "native_graph \<Rightarrow> IBASEFILTER \<Rightarrow> nat \<Rightarrow> GUID option \<Rightarrow> GUID option \<Rightarrow> bool \<Rightarrow> int
                \<Rightarrow> hresult + IPIN"
  CreateObject :: "GUID \<Rightarrow> hresult + IBASEFILTER"
  AddFilter :: "native_graph \<Rightarrow> IBASEFILTER \<Rightarrow> string \<Rightarrow> hresult option"
  QueryInterface :: "com_object \<Rightarrow> interface \<Rightarrow> hresult option"
  GetConnectedMediaType :: "native_graph \<Rightarrow> IBASEFILTER \<Rightarrow> hresult + (int \<times> int)"
  SetCallback :: "IBASEFILTER \<Rightarrow> int \<Rightarrow> hresult option"
  SetMediaType :: "IBASEFILTER \<Rightarrow> GUID \<Rightarrow> GUID \<Rightarrow> hresult option"
  SetOutputFileName :: "native_graph \<Rightarrow> GUID \<Rightarrow> string \<Rightarrow> hresult + (IBASEFILTER \<times> IBASEFILTER)"
  CreateClassEnumerator :: "GUID \<Rightarrow> hresult + IMONIKER list option"
  BindToObject :: "IMONIKER \<Rightarrow> hresult + IBASEFILTER"
  BindToStorage :: "IMONIKER \<Rightarrow> hresult + IPROPERTYBAG"
  Read :: "IPROPERTYBAG \<Rightarrow> string \<Rightarrow> hresult + string"
  GetPages :: "com_object \<Rightarrow> hresult + int"
  OleCreatePropertyFrame :: "com_object \<Rightarrow> int \<Rightarrow> error option"
  QueryPinInfo :: "IPIN \<Rightarrow> hresult + (string \<times> nat \<times> IBASEFILTER)"
  ConnectedTo :: "native_graph \<Rightarrow> IPIN \<Rightarrow> hresult + IPIN"

definition connected :: "native_graph \<Rightarrow> IPIN option \<Rightarrow> IPIN \<Rightarrow> native_graph" where
  "connected g pin_out pin_in = g\<lparr>connections := connections g @ [(pin_out, pin_in)]\<rparr>"

text \<open>The native graph after a sequence of connections, made in list order.\<close>

fun connected_all :: "native_graph \<Rightarrow> (IPIN option \<times> IPIN) list \<Rightarrow> native_graph" where
  "connected_all g [] = g"
| "connected_all g ((pin_out, pin_in) # rest) = connected_all (connected g pin_out pin_in) rest"

section \<open>SampleGrabberCallback\<close>

type_synonym byte = "8 word"

text \<open>An image is a list of rows, a row a list of pixels, a pixel a list of channels.\<close>

type_synonym Mat = "byte list list list"

text \<open>
  \<open>user_callback\<close> is the attribute \<^verbatim>\<open>callback\<close> of the class: the function the
  user passed. It is \<open>None\<close> on an image where the user's function returns, and the
  error where it raises.
\<close>

record SampleGrabberCallback =
  user_callback :: "Mat \<Rightarrow> error option"
  cnt :: int
  keep_photo :: bool
  image_resolution :: "int \<times> int"

definition SampleGrabberCallback_init :: "(Mat \<Rightarrow> error option) \<Rightarrow> SampleGrabberCallback" where
  "SampleGrabberCallback_init cb =
     \<lparr>user_callback = cb, cnt = 0, keep_photo = False, image_resolution = (0, 0)\<rparr>"

definition SampleGrabberCallback_grab_frame :: "SampleGrabberCallback \<Rightarrow> SampleGrabberCallback" where
  "SampleGrabberCallback_grab_frame self = self\<lparr>keep_photo := True\<rparr>"

definition SampleCB :: "SampleGrabberCallback \<Rightarrow> int" where
  "SampleCB self = 0"




section \<open>Filter\<close>

text \<open>
  One record for \<^verbatim>\<open>Filter\<close> and its subclasses: \<open>video_window\<close> is the attribute
  \<^verbatim>\<open>Render\<close> adds, \<open>callback\<close> the one \<^verbatim>\<open>SampleGrabber\<close> adds (\<open>None\<close> is
  Python's \<^verbatim>\<open>None\<close>). The attribute \<^verbatim>\<open>instance\<close> is \<open>instance_ptr\<close>.
\<close>

record Filter =
  instance_ptr :: IBASEFILTER
  Name :: string
  out_pins :: "IPIN list"
  in_pins :: "IPIN list"
  video_window :: "IBASEFILTER option"
  callback :: "SampleGrabberCallback option"

definition get_out :: "Filter \<Rightarrow> error + IPIN" where
  "get_out self = (case out_pins self of [] \<Rightarrow> Inl IndexError | pin # _ \<Rightarrow> Inr pin)"

text \<open>Python indexing: a negative index counts from the end.\<close>

definition get_in :: "Filter \<Rightarrow> int \<Rightarrow> error + IPIN" where
  "get_in self index =
     (let len = int (length (in_pins self)); j = (if index < 0 then len + index else index)
      in if 0 \<le> j \<and> j < len then Inr (in_pins self ! nat j) else Inl IndexError)"

text \<open>\<open>find_pin\<close> catches \<^verbatim>\<open>COMError\<close> and returns \<^verbatim>\<open>None\<close>.\<close>

definition find_pin :: "native \<Rightarrow> native_graph \<Rightarrow> Filter \<Rightarrow> nat \<Rightarrow> GUID option \<Rightarrow> GUID option \<Rightarrow> bool \<Rightarrow> IPIN option" where
  "find_pin n g self direction category type_guid unconnected =
     (case FindPin n g (instance_ptr self) direction category type_guid unconnected 0 of
        Inl hr \<Rightarrow> None
      | Inr pin \<Rightarrow> Some pin)"

fun reload_pins_loop :: "IPIN list \<Rightarrow> Filter \<Rightarrow> Filter" where
  "reload_pins_loop [] self = self"
| "reload_pins_loop (pin # rest) self =
     reload_pins_loop rest
       (if QueryDirection pin = 0 then self\<lparr>in_pins := in_pins self @ [pin]\<rparr>
        else self\<lparr>out_pins := out_pins self @ [pin]\<rparr>)"

definition reload_pins :: "native \<Rightarrow> native_graph \<Rightarrow> Filter \<Rightarrow> (error + unit) \<times> Filter" where
  "reload_pins n g self =
     (let self1 = self\<lparr>out_pins := [], in_pins := []\<rparr> in
      case EnumPins n g (instance_ptr self1) of
        Inl hr \<Rightarrow> (Inl (COMError hr), self1)
      | Inr pins \<Rightarrow> (Inr (), reload_pins_loop pins self1))"

text \<open>A constructor that raises leaves no object behind.\<close>

definition Filter_init :: "native \<Rightarrow> native_graph \<Rightarrow> IBASEFILTER \<Rightarrow> string \<Rightarrow> error + Filter" where
  "Filter_init n g inst name =
     (case reload_pins n g
             \<lparr>instance_ptr = inst, Name = name, out_pins = [], in_pins = [],
              video_window = None, callback = None\<rparr> of
        (Inl e, _) \<Rightarrow> Inl e
      | (Inr _, self) \<Rightarrow> Inr self)"

text \<open>\<open>Render.__init__\<close> catches the \<^verbatim>\<open>COMError\<close> of \<^verbatim>\<open>QueryInterface(IVideoWindow)\<close>.\<close>

definition Render_init :: "native \<Rightarrow> native_graph \<Rightarrow> IBASEFILTER \<Rightarrow> error + Filter" where
  "Render_init n g inst =
     (case Filter_init n g inst ''Render'' of
        Inl e \<Rightarrow> Inl e
      | Inr self \<Rightarrow>
          (case QueryInterface n (BaseFilter (instance_ptr self)) IVideoWindow of
             Some hr \<Rightarrow> Inr (self\<lparr>video_window := None\<rparr>)
           | None \<Rightarrow> Inr (self\<lparr>video_window := Some (instance_ptr self)\<rparr>)))"

definition SampleGrabber_init :: "native \<Rightarrow> native_graph \<Rightarrow> error + Filter" where
  "SampleGrabber_init n g =
     (case CreateObject n CLSID_SampleGrabber of
        Inl hr \<Rightarrow> Inl (COMError hr)
      | Inr inst \<Rightarrow>
          (case Filter_init n g inst ''Sample Grabber'' of
             Inl e \<Rightarrow> Inl e
           | Inr self \<Rightarrow>
               (case QueryInterface n (BaseFilter (instance_ptr self)) ISampleGrabber of
                  Some hr \<Rightarrow> Inl (COMError hr)
                | None \<Rightarrow> Inr (self\<lparr>callback := None\<rparr>))))"

definition SmartTee_init :: "native \<Rightarrow> native_graph \<Rightarrow> error + Filter" where
  "SmartTee_init n g =
     (case CreateObject n CLSID_SmartTee of
        Inl hr \<Rightarrow> Inl (COMError hr)
      | Inr inst \<Rightarrow> Filter_init n g inst ''Smart Tee'')"


section \<open>FrameRateManager and FilterGraphDebugHelper\<close>




section \<open>SystemDeviceEnum\<close>

definition get_moniker_name :: "native \<Rightarrow> IMONIKER \<Rightarrow> error + string" where
  "get_moniker_name n moniker =
     (case BindToStorage n moniker of
        Inl hr \<Rightarrow> Inl (COMError hr)
      | Inr property_bag \<Rightarrow>
          (case Read n property_bag ''FriendlyName'' of
             Inl hr \<Rightarrow> Inl (COMError hr)
           | Inr name \<Rightarrow> Inr name))"

text \<open>
  The enumerator is the list of monikers it still has to deliver: \<^verbatim>\<open>Next(1)\<close>
  returns the head with count 1, and count 0 on the empty list.
\<close>

fun get_available_filters_loop :: "native \<Rightarrow> IMONIKER list \<Rightarrow> string list \<Rightarrow> error + string list" where
  "get_available_filters_loop n [] result = Inr result"
| "get_available_filters_loop n (moniker # rest) result =
     (case get_moniker_name n moniker of
        Inl e \<Rightarrow> Inl e
      | Inr name \<Rightarrow> get_available_filters_loop n rest (result @ [name]))"

text \<open>
  \<^verbatim>\<open>Next\<close> on the NULL enumerator raises \<^verbatim>\<open>ValueError\<close> (comtypes: NULL COM
  pointer access), which the first call catches.
\<close>

definition get_available_filters :: "native \<Rightarrow> GUID \<Rightarrow> error + string list" where
  "get_available_filters n category_clsid =
     (case CreateClassEnumerator n category_clsid of
        Inl hr \<Rightarrow> Inl (COMError hr)
      | Inr None \<Rightarrow> Inr []
      | Inr (Some monikers) \<Rightarrow> get_available_filters_loop n monikers [])"

definition get_input_devices :: "native \<Rightarrow> error + string list" where
  "get_input_devices n = get_available_filters n DeviceCategories_VideoInputDevice"

definition get_audio_devices :: "native \<Rightarrow> error + string list" where
  "get_audio_devices n = get_available_filters n DeviceCategories_AudioInputDevice"

definition get_video_compressors :: "native \<Rightarrow> error + string list" where
  "get_video_compressors n = get_available_filters n DeviceCategories_VideoCompressor"

definition get_audio_compressors :: "native \<Rightarrow> error + string list" where
  "get_audio_compressors n = get_available_filters n DeviceCategories_AudioCompressor"

text \<open>The loop of \<open>get_filter_by_index\<close>: \<open>None\<close> is the NULL moniker of count 0.\<close>

fun get_filter_by_index_loop :: "IMONIKER list \<Rightarrow> int \<Rightarrow> int \<Rightarrow> IMONIKER option" where
  "get_filter_by_index_loop [] i index = None"
| "get_filter_by_index_loop (moniker # rest) i index =
     (if i \<noteq> index then get_filter_by_index_loop rest (i + 1) index else Some moniker)"

definition get_filter_by_index :: "native \<Rightarrow> GUID \<Rightarrow> int \<Rightarrow> error + (IBASEFILTER \<times> string)" where
  "get_filter_by_index n category_clsid index =
     (case CreateClassEnumerator n category_clsid of
        Inl hr \<Rightarrow> Inl (COMError hr)
      | Inr None \<Rightarrow> Inl ValueError
      | Inr (Some monikers) \<Rightarrow>
          (case get_filter_by_index_loop monikers 0 index of
             None \<Rightarrow> Inl ValueError
           | Some moniker \<Rightarrow>
               (case BindToObject n moniker of
                  Inl hr \<Rightarrow> Inl (COMError hr)
                | Inr inst \<Rightarrow>
                    (case get_moniker_name n moniker of
                       Inl e \<Rightarrow> Inl e
                     | Inr name \<Rightarrow> Inr (inst, name)))))"

section \<open>FilterFactory\<close>

text \<open>The argument \<^verbatim>\<open>id\<close> of \<open>build_filter\<close>: \<^verbatim>\<open>int | str | IBASEFILTER\<close> or \<^verbatim>\<open>None\<close>.\<close>

datatype filter_id = IdNone | IdIndex int | IdClsid GUID | IdFilter IBASEFILTER

definition build_device_filter :: "native \<Rightarrow> native_graph \<Rightarrow> GUID \<Rightarrow> filter_id \<Rightarrow> error + Filter" where
  "build_device_filter n g category fid =
     (case fid of
        IdIndex index \<Rightarrow>
          (case get_filter_by_index n category index of
             Inl e \<Rightarrow> Inl e
           | Inr (inst, name) \<Rightarrow> Filter_init n g inst name)
      | _ \<Rightarrow> Inl TypeError)"

text \<open>
  The public operations of \<open>FilterGraph\<close> pass each filter type the kind of \<^verbatim>\<open>id\<close> it
  expects; any other kind is \<open>TypeError\<close> here.
\<close>

fun build_filter :: "native \<Rightarrow> native_graph \<Rightarrow> FilterType \<Rightarrow> filter_id \<Rightarrow> error + Filter" where
  "build_filter n g video_input fid = build_device_filter n g DeviceCategories_VideoInputDevice fid"
| "build_filter n g audio_input fid = build_device_filter n g DeviceCategories_AudioInputDevice fid"
| "build_filter n g video_compressor fid = build_device_filter n g DeviceCategories_VideoCompressor fid"
| "build_filter n g audio_compressor fid = build_device_filter n g DeviceCategories_AudioCompressor fid"
| "build_filter n g render fid =
     (case fid of
        IdClsid clsid \<Rightarrow>
          (case CreateObject n clsid of
             Inl hr \<Rightarrow> Inl (COMError hr)
           | Inr inst \<Rightarrow> Render_init n g inst)
      | _ \<Rightarrow> Inl TypeError)"
| "build_filter n g sample_grabber fid = SampleGrabber_init n g"
| "build_filter n g muxer fid =
     (case fid of
        IdFilter inst \<Rightarrow> Filter_init n g inst ''Muxer''
      | _ \<Rightarrow> Inl TypeError)"
| "build_filter n g smart_tee fid = SmartTee_init n g"
| "build_filter n g file_sink fid = Inl ValueError"

section \<open>Output file names\<close>

text \<open>
  \<^verbatim>\<open>str.upper\<close> on the letters a to z; every other character of the model is left
  as it is.
\<close>

definition upper_char :: "char \<Rightarrow> char" where
  "upper_char c =
     (case map_of (zip ''abcdefghijklmnopqrstuvwxyz'' ''ABCDEFGHIJKLMNOPQRSTUVWXYZ'') c of
        Some u \<Rightarrow> u
      | None \<Rightarrow> c)"

definition upper :: "string \<Rightarrow> string" where
  "upper s = map upper_char s"

text \<open>\<^verbatim>\<open>str.rfind\<close> of one character: the last index where it stands, or -1.\<close>

fun rfind_from :: "string \<Rightarrow> char \<Rightarrow> int \<Rightarrow> int \<Rightarrow> int" where
  "rfind_from [] c i found = found"
| "rfind_from (x # xs) c i found = rfind_from xs c (i + 1) (if x = c then i else found)"

definition rfind :: "string \<Rightarrow> char \<Rightarrow> int" where
  "rfind p c = rfind_from p c 0 (- 1)"

text \<open>
  \<^verbatim>\<open>os.path.splitext\<close> of the Windows path module (the binding runs on Windows only):
  \<^verbatim>\<open>genericpath._splitext(p, '\\', '/', '.')\<close>. The loop skips the leading dots of the
  last path component.
\<close>

function splitext_loop :: "string \<Rightarrow> int \<Rightarrow> int \<Rightarrow> string \<times> string" where
  "splitext_loop p filenameIndex dotIndex =
     (if filenameIndex < dotIndex then
        (if p ! nat filenameIndex \<noteq> CHR ''.'' then (take (nat dotIndex) p, drop (nat dotIndex) p)
         else splitext_loop p (filenameIndex + 1) dotIndex)
      else (p, []))"
  by pat_completeness auto
termination
  by (relation "measure (\<lambda>(p, filenameIndex, dotIndex). nat (dotIndex - filenameIndex))") auto

declare splitext_loop.simps [simp del]

definition splitext :: "string \<Rightarrow> string \<times> string" where
  "splitext p =
     (let sepIndex = max (rfind p (CHR 0x5C)) (rfind p CHR ''/'');
          dotIndex = rfind p CHR ''.''
      in if dotIndex > sepIndex then splitext_loop p (sepIndex + 1) dotIndex else (p, []))"

section \<open>FilterGraph\<close>

text \<open>
  The attributes of \<open>FilterGraph\<close> that its operations write, and \<open>native_state\<close>: the
  native graph behind \<^verbatim>\<open>filter_graph\<close>, \<^verbatim>\<open>graph_builder\<close> and
  \<^verbatim>\<open>capture_builder\<close>. An operation returns its outcome and the object as the call
  left it, also when it raises.
\<close>

record FilterGraph =
  filters :: "FilterType \<Rightarrow> Filter option"
  recording_format :: "RecordingFormat option"
  is_recording :: bool
  native_state :: native_graph

definition FilterGraph_init :: FilterGraph where
  "FilterGraph_init =
     \<lparr>filters = (\<lambda>t. None), recording_format = None, is_recording = False,
      native_state = \<lparr>added_filters = [], connections = [], output_files = []\<rparr>\<rparr>"

definition graph_builder_Connect :: "native \<Rightarrow> IPIN option \<Rightarrow> IPIN \<Rightarrow> FilterGraph \<Rightarrow> (error + unit) \<times> FilterGraph" where
  "graph_builder_Connect n pin_out pin_in self =
     (case Connect n (native_state self) pin_out pin_in of
        Some hr \<Rightarrow> (Inl (COMError hr), self)
      | None \<Rightarrow> (Inr (), self\<lparr>native_state := connected (native_state self) pin_out pin_in\<rparr>))"

text \<open>\<open>add_filter\<close> is the private method \<^verbatim>\<open>__add_filter\<close>.\<close>

definition add_filter :: "native \<Rightarrow> FilterType \<Rightarrow> filter_id \<Rightarrow> FilterGraph \<Rightarrow> (error + unit) \<times> FilterGraph" where
  "add_filter n filter_type fid self =
     (if filters self filter_type \<noteq> None then (Inl AssertionError, self)
      else
        (case build_filter n (native_state self) filter_type fid of
           Inl e \<Rightarrow> (Inl e, self)
         | Inr flt \<Rightarrow>
             (let self1 = self\<lparr>filters := (filters self)(filter_type \<mapsto> flt)\<rparr> in
              case AddFilter n (native_state self1) (instance_ptr flt) (Name flt) of
                Some hr \<Rightarrow> (Inl (COMError hr), self1)
              | None \<Rightarrow>
                  (Inr (),
                   self1\<lparr>native_state := (native_state self1)
                           \<lparr>added_filters := added_filters (native_state self1)
                                               @ [(instance_ptr flt, Name flt)]\<rparr>\<rparr>))))"

definition add_video_input_device :: "native \<Rightarrow> int \<Rightarrow> FilterGraph \<Rightarrow> (error + unit) \<times> FilterGraph" where
  "add_video_input_device n index self = add_filter n video_input (IdIndex index) self"

definition add_audio_input_device :: "native \<Rightarrow> int \<Rightarrow> FilterGraph \<Rightarrow> (error + unit) \<times> FilterGraph" where
  "add_audio_input_device n index self = add_filter n audio_input (IdIndex index) self"

definition add_video_compressor :: "native \<Rightarrow> int \<Rightarrow> FilterGraph \<Rightarrow> (error + unit) \<times> FilterGraph" where
  "add_video_compressor n index self = add_filter n video_compressor (IdIndex index) self"

definition add_audio_compressor :: "native \<Rightarrow> int \<Rightarrow> FilterGraph \<Rightarrow> (error + unit) \<times> FilterGraph" where
  "add_audio_compressor n index self = add_filter n audio_compressor (IdIndex index) self"

text \<open>
  \<open>set_callback\<close> stores the callback object before the native \<^verbatim>\<open>SetCallback\<close>; the
  filter object is the one the dictionary holds, so the dictionary sees the update.
\<close>

definition add_sample_grabber :: "native \<Rightarrow> (Mat \<Rightarrow> error option) \<Rightarrow> FilterGraph \<Rightarrow> (error + unit) \<times> FilterGraph" where
  "add_sample_grabber n cb self =
     (case add_filter n sample_grabber IdNone self of
        (Inl e, self1) \<Rightarrow> (Inl e, self1)
      | (Inr _, self1) \<Rightarrow>
          (case filters self1 sample_grabber of
             None \<Rightarrow> (Inl KeyError, self1)
           | Some sg \<Rightarrow>
               (let sample_grabber_cb = SampleGrabberCallback_init cb;
                    sg1 = sg\<lparr>callback := Some sample_grabber_cb\<rparr>;
                    self2 = self1\<lparr>filters := (filters self1)(sample_grabber \<mapsto> sg1)\<rparr>
                in case SetCallback n (instance_ptr sg1) 1 of
                     Some hr \<Rightarrow> (Inl (COMError hr), self2)
                   | None \<Rightarrow>
                       (case SetMediaType n (instance_ptr sg1) MediaTypes_Video MediaSubtypes_RGB24 of
                          Some hr \<Rightarrow> (Inl (COMError hr), self2)
                        | None \<Rightarrow> (Inr (), self2)))))"

definition add_null_render :: "native \<Rightarrow> FilterGraph \<Rightarrow> (error + unit) \<times> FilterGraph" where
  "add_null_render n self = add_filter n render (IdClsid CLSID_NullRender) self"

definition add_default_render :: "native \<Rightarrow> FilterGraph \<Rightarrow> (error + unit) \<times> FilterGraph" where
  "add_default_render n self = add_filter n render (IdClsid CLSID_VideoRendererDefault) self"

definition add_video_mixing_render :: "native \<Rightarrow> FilterGraph \<Rightarrow> (error + unit) \<times> FilterGraph" where
  "add_video_mixing_render n self = add_filter n render (IdClsid CLSID_VideoMixingRenderer) self"

text \<open>
  \<open>add_file_writer_and_muxer\<close> writes \<open>recording_format\<close> before the native call and
  stores the muxer without going through \<open>add_filter\<close>.
\<close>

definition add_file_writer_and_muxer :: "native \<Rightarrow> string \<Rightarrow> FilterGraph \<Rightarrow> (error + unit) \<times> FilterGraph" where
  "add_file_writer_and_muxer n filename self =
     (let extension = upper (snd (splitext filename));
          mediasubtype = (if extension = ''.WMV'' then MediaSubtypes_ASF else MediaSubtypes_AVI);
          self1 = self\<lparr>recording_format := Some (if extension = ''.WMV'' then ASF else AVI)\<rparr>
      in case SetOutputFileName n (native_state self1) mediasubtype filename of
           Inl hr \<Rightarrow> (Inl (COMError hr), self1)
         | Inr (mux, filesink) \<Rightarrow>
             (let self2 = self1\<lparr>native_state := (native_state self1)
                                  \<lparr>output_files := output_files (native_state self1)
                                                    @ [(mediasubtype, filename)]\<rparr>\<rparr>
              in case build_filter n (native_state self2) muxer (IdFilter mux) of
                   Inl e \<Rightarrow> (Inl e, self2)
                 | Inr flt \<Rightarrow> (Inr (), self2\<lparr>filters := (filters self2)(muxer \<mapsto> flt)\<rparr>)))"

definition get_resolution :: "native \<Rightarrow> native_graph \<Rightarrow> Filter \<Rightarrow> error + (int \<times> int)" where
  "get_resolution n g self =
     (case GetConnectedMediaType n g (instance_ptr self) of
        Inl hr \<Rightarrow> Inl (COMError hr)
      | Inr res \<Rightarrow> Inr res)"

text \<open>
  \<^verbatim>\<open>self.callback.image_resolution = self.get_resolution()\<close>: the right-hand side is
  evaluated first, then the attribute of \<^verbatim>\<open>self.callback\<close> is set.
\<close>

definition initialize_after_connection :: "native \<Rightarrow> native_graph \<Rightarrow> Filter \<Rightarrow> (error + unit) \<times> Filter" where
  "initialize_after_connection n g self =
     (case get_resolution n g self of
        Inl e \<Rightarrow> (Inl e, self)
      | Inr res \<Rightarrow>
          (case callback self of
             None \<Rightarrow> (Inl AttributeError, self)
           | Some cb \<Rightarrow> (Inr (), self\<lparr>callback := Some (cb\<lparr>image_resolution := res\<rparr>)\<rparr>)))"

definition prepare_preview_graph :: "native \<Rightarrow> FilterGraph \<Rightarrow> (error + unit) \<times> FilterGraph" where
  "prepare_preview_graph n self =
     (case filters self video_input of
        None \<Rightarrow> (Inl AssertionError, self)
      | Some vi \<Rightarrow>
     (case filters self render of
        None \<Rightarrow> (Inl AssertionError, self)
      | Some rd \<Rightarrow>
     (case filters self sample_grabber of
        None \<Rightarrow>
          (case get_out vi of
             Inl e \<Rightarrow> (Inl e, self)
           | Inr vi_out \<Rightarrow>
          (case get_in rd 0 of
             Inl e \<Rightarrow> (Inl e, self)
           | Inr rd_in \<Rightarrow>
          (case graph_builder_Connect n (Some vi_out) rd_in self of
             (Inl e, self1) \<Rightarrow> (Inl e, self1)
           | (Inr _, self1) \<Rightarrow> (Inr (), self1\<lparr>is_recording := False\<rparr>))))
      | Some sg \<Rightarrow>
          (case get_out vi of
             Inl e \<Rightarrow> (Inl e, self)
           | Inr vi_out \<Rightarrow>
          (case get_in sg 0 of
             Inl e \<Rightarrow> (Inl e, self)
           | Inr sg_in \<Rightarrow>
          (case graph_builder_Connect n (Some vi_out) sg_in self of
             (Inl e, self1) \<Rightarrow> (Inl e, self1)
           | (Inr _, self1) \<Rightarrow>
          (case get_out sg of
             Inl e \<Rightarrow> (Inl e, self1)
           | Inr sg_out \<Rightarrow>
          (case get_in rd 0 of
             Inl e \<Rightarrow> (Inl e, self1)
           | Inr rd_in \<Rightarrow>
          (case graph_builder_Connect n (Some sg_out) rd_in self1 of
             (Inl e, self2) \<Rightarrow> (Inl e, self2)
           | (Inr _, self2) \<Rightarrow>
          (case initialize_after_connection n (native_state self2) sg of
             (Inl e, sg1) \<Rightarrow> (Inl e, self2\<lparr>filters := (filters self2)(sample_grabber \<mapsto> sg1)\<rparr>)
           | (Inr _, sg1) \<Rightarrow>
               (Inr (), self2\<lparr>filters := (filters self2)(sample_grabber \<mapsto> sg1),
                              is_recording := False\<rparr>)))))))))))"

text \<open>
  \<open>get_capture_and_preview_pins\<close> is the private method
  \<^verbatim>\<open>__get_capture_and_preview_pins\<close>. The unpacking
  \<^verbatim>\<open>capture_pin, preview_pin = smart_tee.out_pins\<close> raises \<^verbatim>\<open>ValueError\<close> unless the
  list has exactly two pins.
\<close>

definition get_capture_and_preview_pins :: "native \<Rightarrow> FilterGraph \<Rightarrow> (error + (IPIN \<times> IPIN)) \<times> FilterGraph" where
  "get_capture_and_preview_pins n self =
     (case filters self video_input of
        None \<Rightarrow> (Inl KeyError, self)
      | Some vi \<Rightarrow>
          (let preview_pin = find_pin n (native_state self) vi PIN_OUT (Some PinCategory_Preview) None True;
               capture_pin = find_pin n (native_state self) vi PIN_OUT (Some PinCategory_Capture) None True
           in case (preview_pin, capture_pin) of
                (Some pp, Some cp) \<Rightarrow> (Inr (pp, cp), self)
              | _ \<Rightarrow>
                  (case add_filter n smart_tee IdNone self of
                     (Inl e, self1) \<Rightarrow> (Inl e, self1)
                   | (Inr _, self1) \<Rightarrow>
                  (case filters self1 smart_tee of
                     None \<Rightarrow> (Inl KeyError, self1)
                   | Some tee \<Rightarrow>
                  (case get_in tee 0 of
                     Inl e \<Rightarrow> (Inl e, self1)
                   | Inr tee_in \<Rightarrow>
                  (case graph_builder_Connect n
                          (if capture_pin \<noteq> None then capture_pin else preview_pin) tee_in self1 of
                     (Inl e, self2) \<Rightarrow> (Inl e, self2)
                   | (Inr _, self2) \<Rightarrow>
                       (case out_pins tee of
                          [cp, pp] \<Rightarrow> (Inr (pp, cp), self2)
                        | _ \<Rightarrow> (Inl ValueError, self2))))))))"







text \<open>
  \<open>grab_frame\<close>: calling \<^verbatim>\<open>grab_frame\<close> on a \<^verbatim>\<open>callback\<close> that is still \<^verbatim>\<open>None\<close>
  raises \<^verbatim>\<open>AttributeError\<close>.
\<close>

definition grab_frame :: "FilterGraph \<Rightarrow> (error + bool) \<times> FilterGraph" where
  "grab_frame self =
     (case filters self sample_grabber of
        Some sg \<Rightarrow>
          (case callback sg of
             None \<Rightarrow> (Inl AttributeError, self)
           | Some cb \<Rightarrow>
               (Inr True,
                self\<lparr>filters := (filters self)
                        (sample_grabber \<mapsto> sg\<lparr>callback := Some (SampleGrabberCallback_grab_frame cb)\<rparr>)\<rparr>))
      | None \<Rightarrow> (Inr False, self))"

section \<open>An example machine\<close>

text \<open>
  A native framework on which every call returns, for evaluating the operations on
  concrete inputs: a camera with a capture pin and no preview pin (\<open>FindPin\<close> fails
  with \<^verbatim>\<open>E_FAIL\<close> for the preview category), a render (instance 2) with one input
  pin, a smart tee (instance 9) with one input and two outputs, an ASF muxer
  (instance 4) with two input pins, and an AVI muxer (instance 5) that grows a second
  input pin once its first one is connected. Every other filter \<open>i\<close> has the input pin \<open>10 * i\<close> and the output pin
  \<open>10 * i + 1\<close>.
\<close>

definition E_FAIL :: hresult where
  "E_FAIL = - 2147467259"

definition example_EnumPins :: "native_graph \<Rightarrow> IBASEFILTER \<Rightarrow> hresult + IPIN list" where
  "example_EnumPins g i =
     (if i = 9 then Inr [IPIN 90 0, IPIN 91 1, IPIN 92 1]
      else if i = 2 then Inr [IPIN 20 0]
      else if i = 4 then Inr [IPIN 40 0, IPIN 41 0]
      else if i = 5 then
        Inr (IPIN 50 0 # (if IPIN 50 0 \<in> snd ` set (connections g) then [IPIN 51 0] else [])
             @ [IPIN 52 1])
      else Inr [IPIN (10 * i) 0, IPIN (10 * i + 1) 1])"

definition native_ok :: native where
  "native_ok =
     \<lparr>Connect = (\<lambda>g pin_out pin_in. None),
      EnumPins = example_EnumPins,
      FindPin = (\<lambda>g i direction category type_guid unconnected index.
                   if category = Some PinCategory_Capture then Inr (IPIN (10 * i + 1) 1)
                   else Inl E_FAIL),
      CreateObject = (\<lambda>clsid. if clsid = CLSID_SampleGrabber then Inr 3
                               else if clsid = CLSID_SmartTee then Inr 9 else Inr 2),
      AddFilter = (\<lambda>g i name. None),
      QueryInterface = (\<lambda>obj iface. None),
      GetConnectedMediaType = (\<lambda>g i. Inr (640, 480)),
      SetCallback = (\<lambda>i which. None),
      SetMediaType = (\<lambda>i major sub. None),
      SetOutputFileName = (\<lambda>g subtype filename.
                             if subtype = MediaSubtypes_ASF then Inr (4, 14) else Inr (5, 15)),
      CreateClassEnumerator = (\<lambda>category.
                                 if category = DeviceCategories_VideoInputDevice then Inr (Some [1, 21])
                                 else if category = DeviceCategories_AudioInputDevice then Inr (Some [7])
                                 else if category = DeviceCategories_VideoCompressor then Inr (Some [6])
                                 else Inr None),
      BindToObject = (\<lambda>moniker. Inr moniker),
      BindToStorage = (\<lambda>moniker. Inr moniker),
      Read = (\<lambda>bag key. if bag = 1 then Inr ''cam'' else if bag = 21 then Inr ''cam2''
                          else if bag = 7 then Inr ''mic'' else Inr ''codec''),
      GetPages = (\<lambda>obj. Inr 1),
      OleCreatePropertyFrame = (\<lambda>obj element_count. None),
      QueryPinInfo = (\<lambda>pin. Inr (''pin'', QueryDirection pin, pin_id pin div 10)),
      ConnectedTo = (\<lambda>g pin. Inl E_FAIL)\<rparr>"

text \<open>The same machine with a camera that has both a preview and a capture pin.\<close>

definition native_two_pins :: native where
  "native_two_pins =
     native_ok\<lparr>FindPin := (\<lambda>g i direction category type_guid unconnected index.
                              if category = Some PinCategory_Capture then Inr (IPIN (10 * i + 1) 1)
                              else Inr (IPIN (10 * i + 2) 1))\<rparr>"



definition example_filter :: "IBASEFILTER \<Rightarrow> string \<Rightarrow> IPIN list \<Rightarrow> IPIN list \<Rightarrow> Filter" where
  "example_filter i name ins outs =
     \<lparr>instance_ptr = i, Name = name, out_pins = outs, in_pins = ins,
      video_window = None, callback = None\<rparr>"

definition example_video_input :: Filter where
  "example_video_input = example_filter 1 ''cam'' [] [IPIN 11 1]"

definition example_render :: Filter where
  "example_render = (example_filter 2 ''Render'' [IPIN 20 0] [])\<lparr>video_window := Some 2\<rparr>"

definition example_callback :: SampleGrabberCallback where
  "example_callback = SampleGrabberCallback_init (\<lambda>img. None)"

definition example_sample_grabber :: Filter where
  "example_sample_grabber =
     (example_filter 3 ''Sample Grabber'' [IPIN 30 0] [IPIN 31 1])\<lparr>callback := Some example_callback\<rparr>"

definition example_muxer_asf :: Filter where
  "example_muxer_asf = example_filter 4 ''Muxer'' [IPIN 40 0, IPIN 41 0] []"

definition example_muxer_avi :: Filter where
  "example_muxer_avi = example_filter 5 ''Muxer'' [IPIN 50 0] [IPIN 52 1]"

definition example_video_compressor :: Filter where
  "example_video_compressor = example_filter 6 ''codec'' [IPIN 60 0] [IPIN 61 1]"

definition example_audio_input :: Filter where
  "example_audio_input = example_filter 7 ''mic'' [] [IPIN 71 1]"

definition example_audio_compressor :: Filter where
  "example_audio_compressor = example_filter 8 ''acodec'' [IPIN 80 0] [IPIN 81 1]"

definition example_smart_tee :: Filter where
  "example_smart_tee = example_filter 9 ''Smart Tee'' [IPIN 90 0] [IPIN 91 1, IPIN 92 1]"

definition example_graph :: "(FilterType \<times> Filter) list \<Rightarrow> RecordingFormat option \<Rightarrow> FilterGraph" where
  "example_graph fs fmt =
     \<lparr>filters = map_of fs, recording_format = fmt, is_recording = False,
      native_state = \<lparr>added_filters = [], connections = [], output_files = []\<rparr>\<rparr>"


definition example_preview_state :: FilterGraph where
  "example_preview_state =
     example_graph [(video_input, example_video_input), (render, example_render)] None"

definition example_grabber_state :: FilterGraph where
  "example_grabber_state =
     example_graph [(video_input, example_video_input), (render, example_render),
                    (sample_grabber, example_sample_grabber)] None"

definition example_avi_state :: FilterGraph where
  "example_avi_state =
     example_graph [(video_input, example_video_input), (render, example_render),
                    (muxer, example_muxer_avi), (video_compressor, example_video_compressor)]
       (Some AVI)"

definition example_avi_audio_state :: FilterGraph where
  "example_avi_audio_state =
     example_graph [(video_input, example_video_input), (render, example_render),
                    (muxer, example_muxer_avi), (video_compressor, example_video_compressor),
                    (audio_input, example_audio_input),
                    (audio_compressor, example_audio_compressor)]
       (Some AVI)"

definition example_asf_state :: FilterGraph where
  "example_asf_state =
     example_graph [(video_input, example_video_input), (render, example_render),
                    (muxer, example_muxer_asf), (audio_input, example_audio_input)]
       (Some ASF)"

definition example_full_state :: FilterGraph where
  "example_full_state =
     example_graph [(video_input, example_video_input), (render, example_render),
                    (sample_grabber, example_sample_grabber),
                    (video_compressor, example_video_compressor),
                    (audio_input, example_audio_input),
                    (audio_compressor, example_audio_compressor)]
       None"

section \<open>Evaluation lemmas\<close>

lemmas example_defs =
  example_graph_def example_filter_def example_video_input_def example_render_def
  example_sample_grabber_def example_callback_def example_muxer_asf_def example_muxer_avi_def
  example_video_compressor_def example_audio_input_def example_audio_compressor_def
  example_smart_tee_def example_preview_state_def example_grabber_state_def
  example_avi_state_def example_avi_audio_state_def example_asf_state_def
  example_full_state_def

section \<open>Adding filters\<close>

text \<open>
  Claim C9. \<open>filters\<close> is a dictionary keyed by \<open>FilterType\<close>, so it holds at most
  one filter per type. \<open>add_filter\<close> (\<^verbatim>\<open>__add_filter\<close>) asserts that the type is not
  present yet: when a filter of the type is already in the graph, \<open>add_filter\<close> and each
  of the eight public operations routed through it raise \<^verbatim>\<open>AssertionError\<close> and leave
  the object exactly as it was, so the existing filter is not replaced.
\<close>

theorem add_filter_rejects_present_type:
  "(filters s t = Some old \<longrightarrow> add_filter n t fid s = (Inl AssertionError, s))
   \<and> (filters s video_input = Some old \<longrightarrow>
        add_video_input_device n i s = (Inl AssertionError, s))
   \<and> (filters s audio_input = Some old \<longrightarrow>
        add_audio_input_device n i s = (Inl AssertionError, s))
   \<and> (filters s video_compressor = Some old \<longrightarrow>
        add_video_compressor n i s = (Inl AssertionError, s))
   \<and> (filters s audio_compressor = Some old \<longrightarrow>
        add_audio_compressor n i s = (Inl AssertionError, s))
   \<and> (filters s sample_grabber = Some old \<longrightarrow>
        add_sample_grabber n cb s = (Inl AssertionError, s))
   \<and> (filters s render = Some old \<longrightarrow>
        add_null_render n s = (Inl AssertionError, s)
        \<and> add_default_render n s = (Inl AssertionError, s)
        \<and> add_video_mixing_render n s = (Inl AssertionError, s))"
  by (simp add: add_filter_def add_video_input_device_def add_audio_input_device_def
      add_video_compressor_def add_audio_compressor_def add_sample_grabber_def
      add_null_render_def add_default_render_def add_video_mixing_render_def)

text \<open>On the example machine: a second video input device is refused.\<close>

theorem add_filter_rejects_present_type_witness:
  "filters example_full_state video_input = Some example_video_input
   \<and> add_video_input_device native_ok 1 example_full_state = (Inl AssertionError, example_full_state)
   \<and> filters (snd (add_video_input_device native_ok 1 example_full_state)) video_input
       = Some example_video_input
   \<and> add_filter native_ok video_input (IdIndex 1) example_full_state
       = (Inl AssertionError, example_full_state)"
  using add_filter_rejects_present_type [of example_full_state video_input example_video_input
      native_ok "IdIndex 1" 1]
  by (simp add: example_defs)

section \<open>Still-frame capture\<close>

text \<open>
  Claim C5. With a sample grabber in the graph whose callback object is installed (as
  \<open>add_sample_grabber\<close> leaves it), \<open>grab_frame\<close> returns \<^verbatim>\<open>True\<close> and its only effect
  is to set \<open>keep_photo\<close> of that callback object; without a sample grabber it returns
  \<^verbatim>\<open>False\<close> and changes nothing.
\<close>

theorem grab_frame_requests_one_frame:
  "(filters s sample_grabber = Some sg \<and> callback sg = Some cb \<longrightarrow>
      grab_frame s =
        (Inr True,
         s\<lparr>filters := (filters s)
              (sample_grabber \<mapsto> sg\<lparr>callback := Some (cb\<lparr>keep_photo := True\<rparr>)\<rparr>)\<rparr>))
   \<and> (filters s sample_grabber = None \<longrightarrow> grab_frame s = (Inr False, s))"
  by (simp add: grab_frame_def SampleGrabberCallback_grab_frame_def)

text \<open>On the example machine, with and without a sample grabber.\<close>

theorem grab_frame_requests_one_frame_witness:
  "fst (grab_frame example_grabber_state) = Inr True
   \<and> map_option keep_photo
        (callback (the (filters (snd (grab_frame example_grabber_state)) sample_grabber))) = Some True
   \<and> map_option keep_photo
        (callback (the (filters example_grabber_state sample_grabber))) = Some False
   \<and> grab_frame example_preview_state = (Inr False, example_preview_state)"
  using grab_frame_requests_one_frame [of example_grabber_state example_sample_grabber
      example_callback]
    grab_frame_requests_one_frame [of example_preview_state]
  by (simp add: example_defs SampleGrabberCallback_init_def)

section \<open>Preview graph\<close>

text \<open>
  Claim C1. With a video input and a render in the graph, each with its first pin, and
  every native call returning: without a sample grabber \<open>prepare_preview_graph\<close> makes
  the single connection video input \<open>\<rightarrow>\<close> render; with a sample grabber (callback
  installed) it connects video input \<open>\<rightarrow>\<close> sample grabber and sample grabber \<open>\<rightarrow>\<close>
  render, in this order, and stores the resolution of the connected media type in the
  callback object. In both cases it returns normally, changes nothing else, and
  \<open>is_recording\<close> is \<^verbatim>\<open>False\<close> afterwards.
\<close>

theorem prepare_preview_graph_topology:
  "filters s video_input = Some vi \<and> filters s render = Some rd
     \<and> out_pins vi = vi_out # vos \<and> in_pins rd = rd_in # ris \<longrightarrow>
   (filters s sample_grabber = None
      \<and> Connect n (native_state s) (Some vi_out) rd_in = None \<longrightarrow>
    prepare_preview_graph n s =
      (Inr (), s\<lparr>native_state := connected_all (native_state s) [(Some vi_out, rd_in)],
                 is_recording := False\<rparr>))
   \<and> (filters s sample_grabber = Some sg
      \<and> in_pins sg = sg_in # sis \<and> out_pins sg = sg_out # sos \<and> callback sg = Some cb
      \<and> Connect n (native_state s) (Some vi_out) sg_in = None
      \<and> Connect n (connected_all (native_state s) [(Some vi_out, sg_in)]) (Some sg_out) rd_in = None
      \<and> GetConnectedMediaType n
           (connected_all (native_state s) [(Some vi_out, sg_in), (Some sg_out, rd_in)])
           (instance_ptr sg) = Inr res \<longrightarrow>
    prepare_preview_graph n s =
      (Inr (), s\<lparr>native_state :=
                   connected_all (native_state s) [(Some vi_out, sg_in), (Some sg_out, rd_in)],
                 filters := (filters s)(sample_grabber \<mapsto>
                              sg\<lparr>callback := Some (cb\<lparr>image_resolution := res\<rparr>)\<rparr>),
                 is_recording := False\<rparr>))"
  by (simp add: prepare_preview_graph_def get_out_def get_in_def graph_builder_Connect_def
      initialize_after_connection_def get_resolution_def)

text \<open>On the example machine: the preview graph without and with a sample grabber.\<close>

theorem prepare_preview_graph_topology_witness:
  "prepare_preview_graph native_ok example_preview_state =
     (Inr (), example_preview_state
        \<lparr>native_state := \<lparr>added_filters = [], connections = [(Some (IPIN 11 1), IPIN 20 0)],
                           output_files = []\<rparr>,
         is_recording := False\<rparr>)
   \<and> fst (prepare_preview_graph native_ok example_grabber_state) = Inr ()
   \<and> connections (native_state (snd (prepare_preview_graph native_ok example_grabber_state)))
       = [(Some (IPIN 11 1), IPIN 30 0), (Some (IPIN 31 1), IPIN 20 0)]
   \<and> map_option image_resolution (callback (the
        (filters (snd (prepare_preview_graph native_ok example_grabber_state)) sample_grabber)))
       = Some (640, 480)
   \<and> is_recording (snd (prepare_preview_graph native_ok example_grabber_state)) = False"
  using prepare_preview_graph_topology [of example_preview_state example_video_input
      example_render "IPIN 11 1" "[]" "IPIN 20 0" "[]" native_ok]
    prepare_preview_graph_topology [of example_grabber_state example_video_input
      example_render "IPIN 11 1" "[]" "IPIN 20 0" "[]" native_ok example_sample_grabber
      "IPIN 30 0" "[]" "IPIN 31 1" "[]" example_callback "(640, 480)"]
  by (simp add: example_defs native_ok_def connected_def)

text \<open>Whenever \<open>prepare_preview_graph\<close> returns normally, \<open>is_recording\<close> is \<^verbatim>\<open>False\<close>.\<close>

lemma prepare_preview_graph_is_recording:
  "prepare_preview_graph n s = (Inr u, s') \<Longrightarrow> \<not> is_recording s'"
  by (auto simp: prepare_preview_graph_def graph_builder_Connect_def
      split: option.splits sum.splits prod.splits)

section \<open>Capture and preview pins\<close>

text \<open>
  Claim C2. When \<open>find_pin\<close> finds both a preview and a capture output pin on the video
  input, \<open>get_capture_and_preview_pins\<close> returns exactly these and changes nothing. When
  one of them is missing (and no smart tee is in the graph yet, and the native calls
  return), a smart tee is built and added to the graph, the pin that was found (the
  capture pin if there is one, else the preview pin) is connected to the smart tee's
  first input pin, and the smart tee's first output pin is returned as the capture pin,
  its second as the preview pin. The result pair is (preview pin, capture pin).
\<close>

theorem get_capture_and_preview_pins_topology:
  "filters s video_input = Some vi
     \<and> find_pin n (native_state s) vi PIN_OUT (Some PinCategory_Preview) None True = preview_pin
     \<and> find_pin n (native_state s) vi PIN_OUT (Some PinCategory_Capture) None True = capture_pin \<longrightarrow>
   (preview_pin = Some pp \<and> capture_pin = Some cp \<longrightarrow>
      get_capture_and_preview_pins n s = (Inr (pp, cp), s))
   \<and> ((preview_pin = None \<or> capture_pin = None)
      \<and> filters s smart_tee = None
      \<and> SmartTee_init n (native_state s) = Inr tee
      \<and> AddFilter n (native_state s) (instance_ptr tee) (Name tee) = None
      \<and> in_pins tee = tee_in # ins
      \<and> out_pins tee = [tee_out1, tee_out2]
      \<and> s1 = s\<lparr>filters := (filters s)(smart_tee \<mapsto> tee),
                native_state := (native_state s)\<lparr>added_filters :=
                   added_filters (native_state s) @ [(instance_ptr tee, Name tee)]\<rparr>\<rparr>
      \<and> Connect n (native_state s1)
           (if capture_pin \<noteq> None then capture_pin else preview_pin) tee_in = None \<longrightarrow>
      get_capture_and_preview_pins n s =
        (Inr (tee_out2, tee_out1),
         s1\<lparr>native_state := connected_all (native_state s1)
               [(if capture_pin \<noteq> None then capture_pin else preview_pin, tee_in)]\<rparr>))"
  by (auto simp: get_capture_and_preview_pins_def add_filter_def get_in_def
      graph_builder_Connect_def split: option.splits)

text \<open>
  On the example machine: a camera with both pins, and a camera with a capture pin
  only, for which the smart tee is inserted.
\<close>

theorem get_capture_and_preview_pins_topology_witness:
  "get_capture_and_preview_pins native_two_pins example_preview_state
     = (Inr (IPIN 12 1, IPIN 11 1), example_preview_state)
   \<and> find_pin native_ok (native_state example_preview_state) example_video_input PIN_OUT
        (Some PinCategory_Preview) None True = None
   \<and> find_pin native_ok (native_state example_preview_state) example_video_input PIN_OUT
        (Some PinCategory_Capture) None True = Some (IPIN 11 1)
   \<and> fst (get_capture_and_preview_pins native_ok example_preview_state)
       = Inr (IPIN 92 1, IPIN 91 1)
   \<and> filters (snd (get_capture_and_preview_pins native_ok example_preview_state)) smart_tee
       = Some example_smart_tee
   \<and> native_state (snd (get_capture_and_preview_pins native_ok example_preview_state))
       = \<lparr>added_filters = [(9, ''Smart Tee'')],
          connections = [(Some (IPIN 11 1), IPIN 90 0)], output_files = []\<rparr>"
  using get_capture_and_preview_pins_topology [of example_preview_state example_video_input
      native_two_pins "Some (IPIN 12 1)" "Some (IPIN 11 1)" "IPIN 12 1" "IPIN 11 1"]
    get_capture_and_preview_pins_topology [of example_preview_state example_video_input
      native_ok None "Some (IPIN 11 1)" _ _ example_smart_tee "IPIN 90 0" "[]"
      "IPIN 91 1" "IPIN 92 1"
      "example_preview_state\<lparr>filters := (filters example_preview_state)(smart_tee \<mapsto> example_smart_tee),
         native_state := (native_state example_preview_state)\<lparr>added_filters :=
           added_filters (native_state example_preview_state) @ [(9, ''Smart Tee'')]\<rparr>\<rparr>"]
  by (simp add: example_defs native_ok_def native_two_pins_def connected_def find_pin_def
      SmartTee_init_def Filter_init_def reload_pins_def example_EnumPins_def PIN_OUT_def)

section \<open>Recording graph\<close>












section \<open>Output file and recording format\<close>

text \<open>A name without a dot has the empty extension.\<close>

lemma rfind_from_notin: "c \<notin> set p \<Longrightarrow> rfind_from p c i found = found"
  by (induction p arbitrary: i found) auto

lemma rfind_from_lower: "- 1 \<le> found \<Longrightarrow> 0 \<le> i \<Longrightarrow> - 1 \<le> rfind_from p c i found"
  by (induction p arbitrary: i found) simp_all

lemma splitext_no_dot: "CHR ''.'' \<notin> set p \<Longrightarrow> splitext p = (p, [])"
  using rfind_from_lower [of "- 1" 0 p "CHR 0x5C"]
  by (simp add: splitext_def rfind_def rfind_from_notin Let_def)

text \<open>The extensions of three example names.\<close>

lemma example_extensions:
  "upper (snd (splitext ''out.wmv'')) = ''.WMV''"
  "upper (snd (splitext ''clip.avi'')) = ''.AVI''"
  "upper (snd (splitext ''video'')) = []"
  by (simp_all add: splitext_def rfind_def splitext_loop.simps upper_def upper_char_def)

text \<open>
  Claim C6. \<open>add_file_writer_and_muxer\<close> takes the extension of the file name
  (\<^verbatim>\<open>os.path.splitext\<close>, upper-cased): for every file name and every native outcome,
  \<open>recording_format\<close> afterwards is ASF if the extension is \<^verbatim>\<open>.WMV\<close> and AVI
  otherwise, in particular for a name without a dot. The media subtype handed to
  \<^verbatim>\<open>SetOutputFileName\<close> is chosen by the same test, and when that call and the
  construction of the muxer wrapper return, the wrapper is stored under \<open>muxer\<close>
  and nothing else changes.
\<close>

theorem add_file_writer_and_muxer_format:
  "recording_format (snd (add_file_writer_and_muxer n filename s))
     = Some (if upper (snd (splitext filename)) = ''.WMV'' then ASF else AVI)
   \<and> (CHR ''.'' \<notin> set filename \<longrightarrow>
        recording_format (snd (add_file_writer_and_muxer n filename s)) = Some AVI)
   \<and> (mediasubtype = (if upper (snd (splitext filename)) = ''.WMV''
                        then MediaSubtypes_ASF else MediaSubtypes_AVI)
      \<and> SetOutputFileName n (native_state s) mediasubtype filename = Inr (mux, filesink)
      \<and> g = (native_state s)\<lparr>output_files :=
                output_files (native_state s) @ [(mediasubtype, filename)]\<rparr>
      \<and> Filter_init n g mux ''Muxer'' = Inr flt \<longrightarrow>
      add_file_writer_and_muxer n filename s =
        (Inr (),
         s\<lparr>recording_format :=
              Some (if upper (snd (splitext filename)) = ''.WMV'' then ASF else AVI),
           native_state := g,
           filters := (filters s)(muxer \<mapsto> flt)\<rparr>))"
proof (intro conjI impI)
  show fmt: "recording_format (snd (add_file_writer_and_muxer n filename s))
     = Some (if upper (snd (splitext filename)) = ''.WMV'' then ASF else AVI)"
    by (simp add: add_file_writer_and_muxer_def Let_def split: sum.splits prod.splits)
  show "recording_format (snd (add_file_writer_and_muxer n filename s)) = Some AVI"
    if "CHR ''.'' \<notin> set filename"
    using that by (simp add: fmt splitext_no_dot upper_def)
  show "add_file_writer_and_muxer n filename s =
        (Inr (),
         s\<lparr>recording_format :=
              Some (if upper (snd (splitext filename)) = ''.WMV'' then ASF else AVI),
           native_state := g,
           filters := (filters s)(muxer \<mapsto> flt)\<rparr>)"
    if "mediasubtype = (if upper (snd (splitext filename)) = ''.WMV''
                        then MediaSubtypes_ASF else MediaSubtypes_AVI)
      \<and> SetOutputFileName n (native_state s) mediasubtype filename = Inr (mux, filesink)
      \<and> g = (native_state s)\<lparr>output_files :=
                output_files (native_state s) @ [(mediasubtype, filename)]\<rparr>
      \<and> Filter_init n g mux ''Muxer'' = Inr flt"
    using that by (auto simp: add_file_writer_and_muxer_def Let_def)
qed

text \<open>On the example machine: a \<^verbatim>\<open>.wmv\<close> name, an \<^verbatim>\<open>.avi\<close> name and a name without extension.\<close>

theorem add_file_writer_and_muxer_format_witness:
  "add_file_writer_and_muxer native_ok ''out.wmv'' example_preview_state =
     (Inr (), example_preview_state
        \<lparr>recording_format := Some ASF,
         native_state := \<lparr>added_filters = [], connections = [],
                           output_files = [(MediaSubtypes_ASF, ''out.wmv'')]\<rparr>,
         filters := (filters example_preview_state)(muxer \<mapsto> example_muxer_asf)\<rparr>)
   \<and> add_file_writer_and_muxer native_ok ''clip.avi'' example_preview_state =
     (Inr (), example_preview_state
        \<lparr>recording_format := Some AVI,
         native_state := \<lparr>added_filters = [], connections = [],
                           output_files = [(MediaSubtypes_AVI, ''clip.avi'')]\<rparr>,
         filters := (filters example_preview_state)(muxer \<mapsto> example_muxer_avi)\<rparr>)
   \<and> recording_format (snd (add_file_writer_and_muxer native_ok ''video'' example_preview_state))
       = Some AVI"
  using add_file_writer_and_muxer_format [of native_ok "''out.wmv''" example_preview_state
      MediaSubtypes_ASF 4 14
      "\<lparr>added_filters = [], connections = [], output_files = [(MediaSubtypes_ASF, ''out.wmv'')]\<rparr>"
      example_muxer_asf]
    add_file_writer_and_muxer_format [of native_ok "''clip.avi''" example_preview_state
      MediaSubtypes_AVI 5 15
      "\<lparr>added_filters = [], connections = [], output_files = [(MediaSubtypes_AVI, ''clip.avi'')]\<rparr>"
      example_muxer_avi]
    add_file_writer_and_muxer_format [of native_ok "''video''" example_preview_state]
  by (simp add: example_extensions example_defs native_ok_def Filter_init_def reload_pins_def
      example_EnumPins_def)

section \<open>Device enumeration\<close>

lemma get_available_filters_loop_names:
  "\<forall>m \<in> set monikers. BindToStorage n m = Inr (bag m) \<and> Read n (bag m) ''FriendlyName'' = Inr (name m) \<Longrightarrow>
   get_available_filters_loop n monikers result = Inr (result @ map name monikers)"
  by (induction monikers arbitrary: result) (simp_all add: get_moniker_name_def)

text \<open>
  Claim C7. For every category, when the class enumerator delivers the monikers
  \<open>monikers\<close> and each one's property bag reads a \<^verbatim>\<open>FriendlyName\<close>,
  \<open>get_available_filters\<close> returns these names in enumerator order; for an enumerator
  without entries, and for the NULL enumerator of an empty category (whose
  \<^verbatim>\<open>ValueError\<close> is caught), it returns the empty list. The four \<^verbatim>\<open>get_...\<close>
  operations of \<open>FilterGraph\<close> are \<open>get_available_filters\<close> at their category.
\<close>

theorem get_available_filters_friendly_names:
  "(CreateClassEnumerator n category = Inr (Some monikers)
      \<and> (\<forall>m \<in> set monikers. BindToStorage n m = Inr (bag m)
                               \<and> Read n (bag m) ''FriendlyName'' = Inr (name m)) \<longrightarrow>
    get_available_filters n category = Inr (map name monikers))
   \<and> (CreateClassEnumerator n category = Inr (Some []) \<longrightarrow>
        get_available_filters n category = Inr [])
   \<and> (CreateClassEnumerator n category = Inr None \<longrightarrow>
        get_available_filters n category = Inr [])
   \<and> get_input_devices n = get_available_filters n DeviceCategories_VideoInputDevice
   \<and> get_audio_devices n = get_available_filters n DeviceCategories_AudioInputDevice
   \<and> get_video_compressors n = get_available_filters n DeviceCategories_VideoCompressor
   \<and> get_audio_compressors n = get_available_filters n DeviceCategories_AudioCompressor"
  using get_available_filters_loop_names [of monikers n bag name "[]"]
  by (simp add: get_available_filters_def get_input_devices_def get_audio_devices_def
      get_video_compressors_def get_audio_compressors_def)

text \<open>On the example machine: two cameras, one microphone, no audio compressor.\<close>

theorem get_available_filters_friendly_names_witness:
  "get_input_devices native_ok = Inr [''cam'', ''cam2'']
   \<and> get_audio_devices native_ok = Inr [''mic'']
   \<and> CreateClassEnumerator native_ok DeviceCategories_AudioCompressor = Inr None
   \<and> get_audio_compressors native_ok = Inr []"
  using get_available_filters_friendly_names [of native_ok DeviceCategories_VideoInputDevice
      "[1, 21]" "\<lambda>m. m" "\<lambda>m. if m = 1 then ''cam'' else ''cam2''"]
    get_available_filters_friendly_names [of native_ok DeviceCategories_AudioInputDevice
      "[7]" "\<lambda>m. m" "\<lambda>m. ''mic''"]
    get_available_filters_friendly_names [of native_ok DeviceCategories_AudioCompressor]
  by (simp add: native_ok_def)

section \<open>Frame delivery\<close>





section \<open>Native errors\<close>




end
